theory Spec2Isabelle
  imports Main "HOL-Library.AList" "HOL-Library.Word"
begin

section \<open>JavaScript values\<close>

text \<open>
  The client handles upstream payloads as values of type \<^verbatim>\<open>any\<close>. They are modelled by
  the JSON values together with \<^verbatim>\<open>undefined\<close>. The program never computes with a number:
  it tests one for truthiness and renders it, so a number is kept as its rendering
  \<^verbatim>\<open>String(n)\<close> (\<^verbatim>\<open>404\<close>, \<^verbatim>\<open>0\<close>, \<^verbatim>\<open>1e+21\<close>, \<^verbatim>\<open>NaN\<close>). An object is the list of its own
  properties, each name once; a name is looked up with \<open>map_of\<close>.
\<close>

type_synonym jsnumber = string

datatype jsvalue =
    JUndefined
  | JNull
  | JBool bool
  | JNum jsnumber
  | JStr string
  | JArr "jsvalue list"
  | JObj "(string \<times> jsvalue) list"

text \<open>The response object of the HTTP library (\<^verbatim>\<open>AxiosResponse\<close>): status, status text, body.\<close>

record AxiosResponse =
  status :: jsnumber
  statusText :: string
  data :: jsvalue

text \<open>
  The values that reach a \<^verbatim>\<open>catch\<close> in this program:
  \<^item> \<open>AxiosError response request message\<close>: the rejection of the HTTP library, with the
    upstream response when one was received, whether the \<^verbatim>\<open>request\<close> property is set, and
    the description of the fault;
  \<^item> \<open>VOEError message code response\<close>: \<^verbatim>\<open>new VOEError(message, code, response)\<close>;
  \<^item> \<open>TypeError message\<close>: the fault of a property read on \<^verbatim>\<open>null\<close> or \<^verbatim>\<open>undefined\<close>.
\<close>

datatype thrown =
    AxiosError "AxiosResponse option" bool string
  | VOEError string string "AxiosResponse option"
  | TypeError string

text \<open>\<^verbatim>\<open>error.response\<close>, \<^verbatim>\<open>error.request\<close> (its truthiness) and \<^verbatim>\<open>error.message\<close>. A
  \<^verbatim>\<open>VOEError\<close> has no \<^verbatim>\<open>request\<close> property; a \<^verbatim>\<open>TypeError\<close> has neither.\<close>

fun err_response :: "thrown \<Rightarrow> AxiosResponse option" where
  "err_response (AxiosError r q m) = r"
| "err_response (VOEError m c r) = r"
| "err_response (TypeError m) = None"

fun err_request :: "thrown \<Rightarrow> bool" where
  "err_request (AxiosError r q m) = q"
| "err_request (VOEError m c r) = False"
| "err_request (TypeError m) = False"

fun err_message :: "thrown \<Rightarrow> string" where
  "err_message (AxiosError r q m) = m"
| "err_message (VOEError m c r) = m"
| "err_message (TypeError m) = m"

fun err_code :: "thrown \<Rightarrow> string option" where
  "err_code (VOEError m c r) = Some c"
| "err_code e = None"

text \<open>Truthiness and \<^verbatim>\<open>a || b\<close>.\<close>

fun truthy :: "jsvalue \<Rightarrow> bool" where
  "truthy JUndefined = False"
| "truthy JNull = False"
| "truthy (JBool b) = b"
| "truthy (JNum n) = (n \<noteq> ''0'' \<and> n \<noteq> ''NaN'')"
| "truthy (JStr s) = (s \<noteq> [])"
| "truthy (JArr xs) = True"
| "truthy (JObj kvs) = True"

definition js_or :: "jsvalue \<Rightarrow> jsvalue \<Rightarrow> jsvalue" where
  "js_or a b = (if truthy a then a else b)"

fun join_comma :: "string list \<Rightarrow> string" where
  "join_comma [] = []"
| "join_comma [s] = s"
| "join_comma (s # t # ss) = s @ '','' @ join_comma (t # ss)"

text \<open>
  \<^verbatim>\<open>String(v)\<close>, the conversion that the \<^verbatim>\<open>Error\<close> constructor applies to its argument. It
  faults on an object that has an own property \<^verbatim>\<open>toString\<close>: that property hides the
  inherited method and no value of a payload is callable, and the inherited \<^verbatim>\<open>valueOf\<close>
  returns the object itself. An array is rendered by joining its elements, \<^verbatim>\<open>null\<close> and
  \<^verbatim>\<open>undefined\<close> as the empty text, and faults where an element does.
\<close>

fun ToString :: "jsvalue \<Rightarrow> thrown + string"
  and ToString_elements :: "jsvalue list \<Rightarrow> thrown + string list" where
  "ToString JUndefined = Inr ''undefined''"
| "ToString JNull = Inr ''null''"
| "ToString (JBool b) = Inr (if b then ''true'' else ''false'')"
| "ToString (JNum n) = Inr n"
| "ToString (JStr s) = Inr s"
| "ToString (JArr xs) =
     (case ToString_elements xs of Inl t \<Rightarrow> Inl t | Inr ss \<Rightarrow> Inr (join_comma ss))"
| "ToString (JObj kvs) =
     (case map_of kvs ''toString'' of
        Some f \<Rightarrow> Inl (TypeError ''Cannot convert object to primitive value'')
      | None \<Rightarrow> Inr ''[object Object]'')"
| "ToString_elements [] = Inr []"
| "ToString_elements (x # xs) =
     (case (if x = JUndefined \<or> x = JNull then Inr [] else ToString x) of
        Inl t \<Rightarrow> Inl t
      | Inr s \<Rightarrow>
          (case ToString_elements xs of Inl t \<Rightarrow> Inl t | Inr ss \<Rightarrow> Inr (s # ss)))"

text \<open>
  \<^verbatim>\<open>new VOEError(message, code, response)\<close>: the constructor passes the message to
  \<^verbatim>\<open>super\<close>, which stores \<^verbatim>\<open>String(message)\<close> unless the message is \<^verbatim>\<open>undefined\<close>. The result
  is what the \<^verbatim>\<open>throw\<close> of that expression throws: the new error, or the fault of the
  conversion.
\<close>

definition new_VOEError :: "jsvalue \<Rightarrow> string \<Rightarrow> AxiosResponse option \<Rightarrow> thrown" where
  "new_VOEError message code response =
     (if message = JUndefined then VOEError [] code response
      else case ToString message of
             Inl t \<Rightarrow> t
           | Inr s \<Rightarrow> VOEError s code response)"

text \<open>
  The property read \<^verbatim>\<open>v.k\<close>, for a name \<open>k\<close> that no prototype defines (\<^verbatim>\<open>message\<close> and
  \<^verbatim>\<open>result\<close> are such names): a \<^verbatim>\<open>TypeError\<close> on \<^verbatim>\<open>null\<close> and \<^verbatim>\<open>undefined\<close>, the property
  of an object when it has one, \<^verbatim>\<open>undefined\<close> otherwise. The description of a fault is
  the engine's (here V8's wording); no result below depends on it.
\<close>

fun get_prop :: "jsvalue \<Rightarrow> string \<Rightarrow> thrown + jsvalue" where
  "get_prop JUndefined k =
     Inl (TypeError (''Cannot read properties of undefined (reading '' @ [CHR 0x27] @ k @ [CHR 0x27] @ '')''))"
| "get_prop JNull k =
     Inl (TypeError (''Cannot read properties of null (reading '' @ [CHR 0x27] @ k @ [CHR 0x27] @ '')''))"
| "get_prop (JObj kvs) k = Inr (case map_of kvs k of Some v \<Rightarrow> v | None \<Rightarrow> JUndefined)"
| "get_prop v k = Inr JUndefined"

text \<open>\<^verbatim>\<open>s.toUpperCase()\<close> on ASCII text.\<close>

definition toUpperCase :: "string \<Rightarrow> string" where
  "toUpperCase s =
     map (\<lambda>c. let n = (of_char c :: nat) in if 97 \<le> n \<and> n \<le> 122 then char_of (n - 32) else c) s"

section \<open>Requests, the network and the logger\<close>

type_synonym Buffer = "8 word list"

datatype Body = FormData "(string \<times> Buffer) list"

text \<open>The request configuration handed to the HTTP transport.\<close>

record Request =
  req_method :: string
  req_baseURL :: "string option"
  req_url :: string
  req_params :: "(string \<times> jsvalue) list"
  req_headers :: "(string \<times> string) list"
  req_data :: "Body option"

text \<open>The upstream and the transport: what each dispatched request settles to.\<close>

type_synonym Network = "Request \<Rightarrow> thrown + AxiosResponse"

text \<open>A logger is named by a handle; an entry is the handle, the level and the message
  (the extra arguments of a call are not recorded).\<close>

type_synonym Logger = string

datatype Level = Info | Warn | Error

text \<open>The observable effects: the requests handed to the transport, in order, and the
  log entries, in order.\<close>

record World =
  requests :: "Request list"
  logged :: "(Logger \<times> Level \<times> string) list"

text \<open>The query that is serialised into the URL: parameters whose value is \<^verbatim>\<open>null\<close> or
  \<^verbatim>\<open>undefined\<close> are skipped.\<close>

definition query_params :: "Request \<Rightarrow> (string \<times> jsvalue) list" where
  "query_params r = filter (\<lambda>(k, v). v \<noteq> JNull \<and> v \<noteq> JUndefined) (req_params r)"

text \<open>The parameters of a call are merged over the defaults of the instance, name by
  name: a name of the call replaces the value of the default of that name, also when its
  value is \<^verbatim>\<open>null\<close>, and a new name is added. (The library merges two values that are both
  objects into one; the defaults of this client hold a text only.)\<close>

fun mergeParams ::
  "(string \<times> jsvalue) list \<Rightarrow> (string \<times> jsvalue) list option \<Rightarrow> (string \<times> jsvalue) list" where
  "mergeParams defaults None = defaults"
| "mergeParams defaults (Some ps) = fold (\<lambda>(k, v). AList.update k v) ps defaults"

section \<open>The client\<close>

record AxiosInstance =
  cfg_baseURL :: string
  cfg_params :: "(string \<times> jsvalue) list"

record VOE =
  apiKey :: string
  baseURL :: string
  client :: AxiosInstance
  logger :: Logger

definition default_logger :: Logger where
  "default_logger = ''winston: console, voe-api.log''"

definition log_info :: "VOE \<Rightarrow> string \<Rightarrow> World \<Rightarrow> World" where
  "log_info v m w = w\<lparr>logged := logged w @ [(logger v, Info, m)]\<rparr>"

definition log_error :: "VOE \<Rightarrow> string \<Rightarrow> World \<Rightarrow> World" where
  "log_error v m w = w\<lparr>logged := logged w @ [(logger v, Error, m)]\<rparr>"

text \<open>\<^verbatim>\<open>new VOE(apiKey, options)\<close>; an absent argument is \<open>None\<close>.\<close>

definition VOE_constructor ::
  "string option \<Rightarrow> Logger option \<Rightarrow> World \<Rightarrow> (thrown + VOE) \<times> World" where
  "VOE_constructor key lg w =
     (case key of
        None \<Rightarrow> (Inl (VOEError ''API key is required'' ''MISSING_API_KEY'' None), w)
      | Some k \<Rightarrow>
          if k = [] then (Inl (VOEError ''API key is required'' ''MISSING_API_KEY'' None), w)
          else
            (Inr \<lparr>apiKey = k,
                  baseURL = ''https://voe.sx/api'',
                  client = \<lparr>cfg_baseURL = ''https://voe.sx/api'', cfg_params = [(''key'', JStr k)]\<rparr>,
                  logger = (case lg of Some l \<Rightarrow> l | None \<Rightarrow> default_logger)\<rparr>, w))"

text \<open>The error handler of the response interceptor installed by the constructor.\<close>

definition interceptor_rejected ::
  "VOE \<Rightarrow> thrown \<Rightarrow> World \<Rightarrow> (thrown + AxiosResponse) \<times> World" where
  "interceptor_rejected v error w =
     (case err_response error of
        Some r \<Rightarrow>
          (let w1 = log_error v (''API Error: '' @ status r @ '' '' @ statusText r) w
           in case get_prop (data r) ''message'' of
                Inl t \<Rightarrow> (Inl t, w1)
              | Inr m \<Rightarrow>
                  (Inl (new_VOEError (js_or m (JStr ''API request failed'')) ''API_ERROR'' (Some r)), w1))
      | None \<Rightarrow>
          if err_request error
          then (Inl (new_VOEError (JStr ''Network error'') ''NETWORK_ERROR'' None),
                log_error v ''Network Error: No response received'' w)
          else (Inl (new_VOEError (JStr (err_message error)) ''REQUEST_ERROR'' None),
                log_error v (''Request Error: '' @ err_message error) w))"

text \<open>
  \<^verbatim>\<open>this.client.get(url, {params})\<close>: the configuration is merged over the defaults of the
  instance, the request interceptor logs it, the transport settles it, and the response
  interceptor handles the outcome (a rejection goes to its error handler).
\<close>

definition merged_config :: "VOE \<Rightarrow> string \<Rightarrow> (string \<times> jsvalue) list option \<Rightarrow> Request" where
  "merged_config v path ps =
     \<lparr>req_method = ''get'',
      req_baseURL = Some (cfg_baseURL (client v)),
      req_url = path,
      req_params = mergeParams (cfg_params (client v)) ps,
      req_headers = [],
      req_data = None\<rparr>"

definition client_get ::
  "VOE \<Rightarrow> Network \<Rightarrow> string \<Rightarrow> (string \<times> jsvalue) list option \<Rightarrow> World
     \<Rightarrow> (thrown + AxiosResponse) \<times> World" where
  "client_get v net path ps w =
     (let config = merged_config v path ps;
          w1 = log_info v (''Request: '' @ toUpperCase (req_method config) @ '' '' @ req_url config) w;
          w2 = w1\<lparr>requests := requests w1 @ [config]\<rparr>
      in case net config of
           Inr resp \<Rightarrow>
             (Inr resp, log_info v (''Response: '' @ status resp @ '' '' @ statusText resp) w2)
         | Inl error \<Rightarrow> interceptor_rejected v error w2)"

text \<open>\<^verbatim>\<open>requestWithErrorHandling(requestFn)\<close>.\<close>

definition requestWithErrorHandling ::
  "VOE \<Rightarrow> (World \<Rightarrow> (thrown + AxiosResponse) \<times> World) \<Rightarrow> World \<Rightarrow> (thrown + jsvalue) \<times> World" where
  "requestWithErrorHandling v requestFn w =
     (case requestFn w of
        (Inr resp, w1) \<Rightarrow> (Inr (data resp), w1)
      | (Inl error, w1) \<Rightarrow>
          (case err_response error of
             Some r \<Rightarrow>
               (let w2 = log_error v (''API Error: '' @ status r @ '' '' @ statusText r) w1
                in case get_prop (data r) ''message'' of
                     Inl t \<Rightarrow> (Inl t, w2)
                   | Inr m \<Rightarrow>
                       (Inl (new_VOEError (js_or m (JStr ''API request failed'')) ''API_ERROR'' (Some r)), w2))
           | None \<Rightarrow>
               if err_request error
               then (Inl (new_VOEError (JStr ''Network error'') ''NETWORK_ERROR'' None),
                     log_error v ''Network Error: No response received'' w1)
               else (Inl (new_VOEError (JStr (err_message error)) ''REQUEST_ERROR'' None),
                     log_error v (''Request Error: '' @ err_message error) w1)))"

section \<open>The operations\<close>

definition getAccountInfo :: "VOE \<Rightarrow> Network \<Rightarrow> World \<Rightarrow> (thrown + jsvalue) \<times> World" where
  "getAccountInfo v net = requestWithErrorHandling v (client_get v net ''/account/info'' None)"

definition getAccountStats :: "VOE \<Rightarrow> Network \<Rightarrow> World \<Rightarrow> (thrown + jsvalue) \<times> World" where
  "getAccountStats v net = requestWithErrorHandling v (client_get v net ''/account/stats'' None)"

definition getUploadServer :: "VOE \<Rightarrow> Network \<Rightarrow> World \<Rightarrow> (thrown + jsvalue) \<times> World" where
  "getUploadServer v net w =
     (case requestWithErrorHandling v (client_get v net ''/upload/server'' None) w of
        (Inl e, w1) \<Rightarrow> (Inl e, w1)
      | (Inr d, w1) \<Rightarrow>
          (case get_prop d ''result'' of Inl t \<Rightarrow> (Inl t, w1) | Inr r \<Rightarrow> (Inr r, w1)))"

text \<open>\<^verbatim>\<open>uploadFile\<close> posts with the library's global instance: no base URL, no default
  parameters, no interceptors.\<close>

definition uploadFile ::
  "VOE \<Rightarrow> Network \<Rightarrow> string \<Rightarrow> Buffer \<Rightarrow> World \<Rightarrow> (thrown + jsvalue) \<times> World" where
  "uploadFile v net uploadServer file w =
     (let formData = FormData [(''file'', file)];
          config = \<lparr>req_method = ''post'',
                    req_baseURL = None,
                    req_url = uploadServer,
                    req_params = [],
                    req_headers = [(''Content-Type'', ''multipart/form-data'')],
                    req_data = Some formData\<rparr>;
          w1 = w\<lparr>requests := requests w @ [config]\<rparr>
      in case net config of
           Inr response \<Rightarrow> (Inr (data response), w1)
         | Inl error \<Rightarrow> (Inl error, log_error v ''Failed to upload file'' w1))"

definition remoteUpload :: "VOE \<Rightarrow> Network \<Rightarrow> string \<Rightarrow> World \<Rightarrow> (thrown + jsvalue) \<times> World" where
  "remoteUpload v net u =
     requestWithErrorHandling v (client_get v net ''/upload/url'' (Some [(''url'', JStr u)]))"

definition getRemoteUploadList ::
  "VOE \<Rightarrow> Network \<Rightarrow> jsnumber option \<Rightarrow> World \<Rightarrow> (thrown + jsvalue) \<times> World" where
  "getRemoteUploadList v net ident =
     requestWithErrorHandling v
       (client_get v net ''/upload/url/list''
          (Some [(''id'', (case ident of None \<Rightarrow> JNull | Some n \<Rightarrow> JNum n))]))"

definition cloneUpload ::
  "VOE \<Rightarrow> Network \<Rightarrow> string \<Rightarrow> jsnumber option \<Rightarrow> World \<Rightarrow> (thrown + jsvalue) \<times> World" where
  "cloneUpload v net fileCode folderId =
     requestWithErrorHandling v
       (client_get v net ''/file/clone''
          (Some [(''file_code'', JStr fileCode),
                 (''fld_id'', JNum (case folderId of None \<Rightarrow> ''0'' | Some n \<Rightarrow> n))]))"

definition getFileInfo :: "VOE \<Rightarrow> Network \<Rightarrow> string \<Rightarrow> World \<Rightarrow> (thrown + jsvalue) \<times> World" where
  "getFileInfo v net fileCodes =
     requestWithErrorHandling v
       (client_get v net ''/file/info'' (Some [(''file_code'', JStr fileCodes)]))"

text \<open>\<^verbatim>\<open>listFiles(options)\<close> passes the object it is given as the parameters of the call,
  as it is; an absent argument is the empty object.\<close>

definition listFiles ::
  "VOE \<Rightarrow> Network \<Rightarrow> (string \<times> jsvalue) list option \<Rightarrow> World \<Rightarrow> (thrown + jsvalue) \<times> World" where
  "listFiles v net options =
     requestWithErrorHandling v
       (client_get v net ''/file/list''
          (Some (case options of None \<Rightarrow> [] | Some obj \<Rightarrow> obj)))"

definition renameFile ::
  "VOE \<Rightarrow> Network \<Rightarrow> string \<Rightarrow> string \<Rightarrow> World \<Rightarrow> (thrown + jsvalue) \<times> World" where
  "renameFile v net fileCode title =
     requestWithErrorHandling v
       (client_get v net ''/file/rename'' (Some [(''file_code'', JStr fileCode), (''title'', JStr title)]))"

definition moveFile ::
  "VOE \<Rightarrow> Network \<Rightarrow> string \<Rightarrow> jsnumber \<Rightarrow> World \<Rightarrow> (thrown + jsvalue) \<times> World" where
  "moveFile v net fileCode folderId =
     requestWithErrorHandling v
       (client_get v net ''/file/move'' (Some [(''file_code'', JStr fileCode), (''fld_id'', JNum folderId)]))"

definition deleteFile :: "VOE \<Rightarrow> Network \<Rightarrow> string \<Rightarrow> World \<Rightarrow> (thrown + jsvalue) \<times> World" where
  "deleteFile v net fileCode =
     requestWithErrorHandling v
       (client_get v net ''/file/delete'' (Some [(''file_code'', JStr fileCode)]))"

text \<open>The JSON-endpoint operations with their arguments, and a call of one of them.\<close>

datatype Operation =
    GetAccountInfo
  | GetAccountStats
  | GetUploadServer
  | RemoteUpload string
  | GetRemoteUploadList "jsnumber option"
  | CloneUpload string "jsnumber option"
  | GetFileInfo string
  | ListFiles "(string \<times> jsvalue) list option"
  | RenameFile string string
  | MoveFile string jsnumber
  | DeleteFile string

fun call :: "VOE \<Rightarrow> Network \<Rightarrow> Operation \<Rightarrow> World \<Rightarrow> (thrown + jsvalue) \<times> World" where
  "call v net GetAccountInfo = getAccountInfo v net"
| "call v net GetAccountStats = getAccountStats v net"
| "call v net GetUploadServer = getUploadServer v net"
| "call v net (RemoteUpload u) = remoteUpload v net u"
| "call v net (GetRemoteUploadList i) = getRemoteUploadList v net i"
| "call v net (CloneUpload c f) = cloneUpload v net c f"
| "call v net (GetFileInfo c) = getFileInfo v net c"
| "call v net (ListFiles opts) = listFiles v net opts"
| "call v net (RenameFile c t) = renameFile v net c t"
| "call v net (MoveFile c f) = moveFile v net c f"
| "call v net (DeleteFile c) = deleteFile v net c"

text \<open>The path and the parameters each operation passes to the shared client.\<close>

fun op_path :: "Operation \<Rightarrow> string" where
  "op_path GetAccountInfo = ''/account/info''"
| "op_path GetAccountStats = ''/account/stats''"
| "op_path GetUploadServer = ''/upload/server''"
| "op_path (RemoteUpload u) = ''/upload/url''"
| "op_path (GetRemoteUploadList i) = ''/upload/url/list''"
| "op_path (CloneUpload c f) = ''/file/clone''"
| "op_path (GetFileInfo c) = ''/file/info''"
| "op_path (ListFiles opts) = ''/file/list''"
| "op_path (RenameFile c t) = ''/file/rename''"
| "op_path (MoveFile c f) = ''/file/move''"
| "op_path (DeleteFile c) = ''/file/delete''"

fun op_params :: "Operation \<Rightarrow> (string \<times> jsvalue) list option" where
  "op_params GetAccountInfo = None"
| "op_params GetAccountStats = None"
| "op_params GetUploadServer = None"
| "op_params (RemoteUpload u) = Some [(''url'', JStr u)]"
| "op_params (GetRemoteUploadList i) = Some [(''id'', (case i of None \<Rightarrow> JNull | Some n \<Rightarrow> JNum n))]"
| "op_params (CloneUpload c f) =
     Some [(''file_code'', JStr c), (''fld_id'', JNum (case f of None \<Rightarrow> ''0'' | Some n \<Rightarrow> n))]"
| "op_params (GetFileInfo c) = Some [(''file_code'', JStr c)]"
| "op_params (ListFiles opts) = Some (case opts of None \<Rightarrow> [] | Some obj \<Rightarrow> obj)"
| "op_params (RenameFile c t) = Some [(''file_code'', JStr c), (''title'', JStr t)]"
| "op_params (MoveFile c f) = Some [(''file_code'', JStr c), (''fld_id'', JNum f)]"
| "op_params (DeleteFile c) = Some [(''file_code'', JStr c)]"

text \<open>The names of the filters of \<^verbatim>\<open>listFiles\<close>, and the filters in the query of a
  request.\<close>

definition filter_names :: "string list" where
  "filter_names = [''page'', ''per_page'', ''fld_id'', ''created'', ''name'']"

definition filter_params :: "Request \<Rightarrow> (string \<times> jsvalue) list" where
  "filter_params r = filter (\<lambda>(k, v). k \<in> set filter_names) (query_params r)"

text \<open>
  The declared type of the options of \<^verbatim>\<open>listFiles\<close> has five optional filters. A caller
  who writes an object literal of that type passes an object with the filters that are
  present and nothing else.
\<close>

record ListFilesOptions =
  page :: "jsnumber option"
  per_page :: "jsnumber option"
  fld_id :: "jsnumber option"
  created :: "string option"
  name :: "string option"

definition declared_filters :: "ListFilesOptions \<Rightarrow> (string \<times> jsvalue) list" where
  "declared_filters opts =
     (case page opts of None \<Rightarrow> [] | Some n \<Rightarrow> [(''page'', JNum n)]) @
     (case per_page opts of None \<Rightarrow> [] | Some n \<Rightarrow> [(''per_page'', JNum n)]) @
     (case fld_id opts of None \<Rightarrow> [] | Some n \<Rightarrow> [(''fld_id'', JNum n)]) @
     (case created opts of None \<Rightarrow> [] | Some s \<Rightarrow> [(''created'', JStr s)]) @
     (case name opts of None \<Rightarrow> [] | Some s \<Rightarrow> [(''name'', JStr s)])"

text \<open>The classification code of a failure, when the failure is a \<^verbatim>\<open>VOEError\<close>.\<close>

definition failure_code :: "thrown + 'a \<Rightarrow> string option" where
  "failure_code res = (case res of Inl e \<Rightarrow> err_code e | Inr x \<Rightarrow> None)"

text \<open>Fixtures: a transport that rejects every request with the same error, one that
  answers every request with the same response, a response, an empty world, and the client
  constructed with the key \<^verbatim>\<open>k1\<close>.\<close>

definition net_fail :: "thrown \<Rightarrow> Network" where
  "net_fail e r = Inl e"

definition net_ok :: "AxiosResponse \<Rightarrow> Network" where
  "net_ok resp r = Inr resp"

definition resp_of :: "jsnumber \<Rightarrow> string \<Rightarrow> jsvalue \<Rightarrow> AxiosResponse" where
  "resp_of s t d = \<lparr>status = s, statusText = t, data = d\<rparr>"

definition world0 :: World where
  "world0 = \<lparr>requests = [], logged = []\<rparr>"

definition voe1 :: VOE where
  "voe1 = \<lparr>apiKey = ''k1'',
           baseURL = ''https://voe.sx/api'',
           client = \<lparr>cfg_baseURL = ''https://voe.sx/api'', cfg_params = [(''key'', JStr ''k1'')]\<rparr>,
           logger = default_logger\<rparr>"

section \<open>Requests and results of the request pipeline\<close>

lemma call_unfold:
  "call v net opn w =
     (if opn = GetUploadServer
      then (case requestWithErrorHandling v (client_get v net (op_path opn) (op_params opn)) w of
              (Inl e, w1) \<Rightarrow> (Inl e, w1)
            | (Inr d, w1) \<Rightarrow>
                (case get_prop d ''result'' of Inl t \<Rightarrow> (Inl t, w1) | Inr r \<Rightarrow> (Inr r, w1)))
      else requestWithErrorHandling v (client_get v net (op_path opn) (op_params opn)) w)"
  by (cases opn)
     (simp_all add: getAccountInfo_def getAccountStats_def getUploadServer_def remoteUpload_def
        getRemoteUploadList_def cloneUpload_def getFileInfo_def listFiles_def renameFile_def
        moveFile_def deleteFile_def)

lemma requests_log [simp]:
  "requests (log_info v m w) = requests w" "requests (log_error v m w) = requests w"
  by (simp_all add: log_info_def log_error_def)

lemma interceptor_rejected_requests:
  "requests (snd (interceptor_rejected v e w)) = requests w"
  by (simp add: interceptor_rejected_def Let_def split: option.splits sum.splits)

lemma client_get_requests:
  "requests (snd (client_get v net p ps w)) = requests w @ [merged_config v p ps]"
  by (simp add: client_get_def Let_def interceptor_rejected_requests split: sum.splits)

lemma requestWithErrorHandling_requests:
  "requests (snd (requestWithErrorHandling v f w)) = requests (snd (f w))"
  by (simp add: requestWithErrorHandling_def Let_def split: prod.splits option.splits sum.splits)

lemma snd_unwrap:
  "snd (case x of (Inl e, w1) \<Rightarrow> (Inl e, w1)
        | (Inr d, w1) \<Rightarrow> (case g d of Inl t \<Rightarrow> (Inl t, w1) | Inr r \<Rightarrow> (Inr r, w1))) = snd x"
  by (cases x) (simp split: sum.splits)

lemma call_requests:
  "requests (snd (call v net opn w)) = requests w @ [merged_config v (op_path opn) (op_params opn)]"
  by (subst call_unfold)
     (simp add: snd_unwrap requestWithErrorHandling_requests client_get_requests)

lemma get_prop_fault: "get_prop d k = Inl t \<Longrightarrow> \<exists>m. t = TypeError m"
  by (cases d) auto


lemma ToString_fault:
  "ToString x = Inl t \<Longrightarrow> \<exists>m. t = TypeError m"
  "ToString_elements xs = Inl t \<Longrightarrow> \<exists>m. t = TypeError m"
  by (induction x and xs arbitrary: t and t rule: ToString_ToString_elements.induct)
     (auto split: sum.splits option.splits if_splits)

lemma new_VOEError_text [simp]: "new_VOEError (JStr s) c r = VOEError s c r"
  by (simp add: new_VOEError_def)

lemma js_or_defined: "js_or m (JStr s) \<noteq> JUndefined"
  by (cases m) (simp_all add: js_or_def)

lemma new_VOEError_cases:
  "new_VOEError (js_or m (JStr s)) c r =
     (case ToString (js_or m (JStr s)) of Inl t \<Rightarrow> t | Inr x \<Rightarrow> VOEError x c r)"
  by (simp add: new_VOEError_def js_or_defined)

lemma client_get_result:
  "fst (client_get v net p ps w) =
     (case net (merged_config v p ps) of
        Inr resp \<Rightarrow> Inr resp
      | Inl e \<Rightarrow> fst (interceptor_rejected v e w))"
  by (simp add: client_get_def Let_def interceptor_rejected_def split: sum.splits option.splits)

lemma interceptor_rejected_result:
  "fst (interceptor_rejected v e w) =
     (case err_response e of
        Some r \<Rightarrow>
          (case get_prop (data r) ''message'' of
             Inl t \<Rightarrow> Inl t
           | Inr m \<Rightarrow> Inl (new_VOEError (js_or m (JStr ''API request failed'')) ''API_ERROR'' (Some r)))
      | None \<Rightarrow>
          if err_request e then Inl (VOEError ''Network error'' ''NETWORK_ERROR'' None)
          else Inl (VOEError (err_message e) ''REQUEST_ERROR'' None))"
  by (simp add: interceptor_rejected_def Let_def split: sum.splits option.splits)

lemma requestWithErrorHandling_result:
  "fst (requestWithErrorHandling v f w) =
     (case fst (f w) of
        Inr resp \<Rightarrow> Inr (data resp)
      | Inl e \<Rightarrow>
         (case err_response e of
            Some r \<Rightarrow>
              (case get_prop (data r) ''message'' of
                 Inl t \<Rightarrow> Inl t
               | Inr m \<Rightarrow> Inl (new_VOEError (js_or m (JStr ''API request failed'')) ''API_ERROR'' (Some r)))
          | None \<Rightarrow>
              if err_request e then Inl (VOEError ''Network error'' ''NETWORK_ERROR'' None)
              else Inl (VOEError (err_message e) ''REQUEST_ERROR'' None)))"
  by (cases "f w") (simp add: requestWithErrorHandling_def Let_def split: sum.splits option.splits)

text \<open>What reaches the caller of \<^verbatim>\<open>requestWithErrorHandling\<close> around a call of the shared
  client: the handler classifies what the interceptor threw.\<close>

lemma json_pipeline_result:
  "fst (requestWithErrorHandling v (client_get v net p ps) w) =
     (case net (merged_config v p ps) of
        Inr resp \<Rightarrow> Inr (data resp)
      | Inl e \<Rightarrow>
         (case err_response e of
            Some r \<Rightarrow>
              (case get_prop (data r) ''message'' of
                 Inl t \<Rightarrow> Inl (VOEError (err_message t) ''REQUEST_ERROR'' None)
               | Inr m \<Rightarrow>
                   (case ToString (js_or m (JStr ''API request failed'')) of
                      Inl t \<Rightarrow> Inl (VOEError (err_message t) ''REQUEST_ERROR'' None)
                    | Inr s \<Rightarrow> Inl (VOEError s ''API_ERROR'' (Some r))))
          | None \<Rightarrow>
              Inl (VOEError (if err_request e then ''Network error'' else err_message e) ''REQUEST_ERROR'' None)))"
  by (auto simp: requestWithErrorHandling_result client_get_result interceptor_rejected_result
        new_VOEError_cases
      split: sum.splits option.splits dest: get_prop_fault ToString_fault(1))

lemma fst_unwrap:
  "fst (case x of (Inl e, w1) \<Rightarrow> (Inl e, w1)
        | (Inr d, w1) \<Rightarrow> (case g d of Inl t \<Rightarrow> (Inl t, w1) | Inr r \<Rightarrow> (Inr r, w1))) =
   (case fst x of Inl e \<Rightarrow> Inl e | Inr d \<Rightarrow> g d)"
  by (cases x) (simp split: sum.splits)

lemma call_result:
  "fst (call v net opn w) =
     (case fst (requestWithErrorHandling v (client_get v net (op_path opn) (op_params opn)) w) of
        Inl e \<Rightarrow> Inl e
      | Inr d \<Rightarrow> if opn = GetUploadServer then get_prop d ''result'' else Inr d)"
  by (subst call_unfold) (simp add: fst_unwrap split: sum.splits)

lemma call_failure:
  assumes "net (merged_config v (op_path opn) (op_params opn)) = Inl e"
  shows "fst (call v net opn w) =
     (case err_response e of
        Some r \<Rightarrow>
          (case get_prop (data r) ''message'' of
             Inl t \<Rightarrow> Inl (VOEError (err_message t) ''REQUEST_ERROR'' None)
           | Inr m \<Rightarrow>
               (case ToString (js_or m (JStr ''API request failed'')) of
                  Inl t \<Rightarrow> Inl (VOEError (err_message t) ''REQUEST_ERROR'' None)
                | Inr s \<Rightarrow> Inl (VOEError s ''API_ERROR'' (Some r))))
      | None \<Rightarrow>
          Inl (VOEError (if err_request e then ''Network error'' else err_message e) ''REQUEST_ERROR'' None))"
  using assms by (simp add: call_result json_pipeline_result split: option.splits sum.splits)

lemma call_success:
  assumes "net (merged_config v (op_path opn) (op_params opn)) = Inr resp"
  shows "fst (call v net opn w) = (if opn = GetUploadServer then get_prop (data resp) ''result'' else Inr (data resp))"
  using assms by (simp add: call_result json_pipeline_result)

subsection \<open>Merged parameters\<close>


lemma update_fresh: "k \<notin> fst ` set d \<Longrightarrow> AList.update k v d = d @ [(k, v)]"
  by (induction d) auto

lemma fold_update_fresh:
  "distinct (map fst ps) \<Longrightarrow> fst ` set ps \<inter> fst ` set d = {} \<Longrightarrow>
   fold (\<lambda>(k, v). AList.update k v) ps d = d @ ps"
proof (induction ps arbitrary: d)
  case Nil
  then show ?case by simp
next
  case (Cons p ps)
  obtain k v where p: "p = (k, v)" by (cases p)
  from Cons.prems p have fresh: "k \<notin> fst ` set d" by auto
  from Cons.prems p have "distinct (map fst ps)" "fst ` set ps \<inter> fst ` set (d @ [(k, v)]) = {}"
    by auto
  then have "fold (\<lambda>(k, v). AList.update k v) ps (d @ [(k, v)]) = (d @ [(k, v)]) @ ps"
    by (rule Cons.IH)
  with fresh p show ?case by (simp add: update_fresh)
qed

text \<open>The entries with a name in \<open>F\<close> survive the merge in the order of the call's object,
  when the defaults have no such name.\<close>

lemma filter_update_other:
  "k \<notin> F \<Longrightarrow>
   filter (\<lambda>(n, x). n \<in> F \<and> P x) (AList.update k v d) = filter (\<lambda>(n, x). n \<in> F \<and> P x) d"
  by (induction d) auto

lemma filter_fold_update:
  "distinct (map fst ps) \<Longrightarrow> fst ` set ps \<inter> F \<inter> fst ` set d = {} \<Longrightarrow>
   filter (\<lambda>(n, x). n \<in> F \<and> P x) (fold (\<lambda>(k, v). AList.update k v) ps d) =
   filter (\<lambda>(n, x). n \<in> F \<and> P x) d @ filter (\<lambda>(n, x). n \<in> F \<and> P x) ps"
proof (induction ps arbitrary: d)
  case Nil
  then show ?case by simp
next
  case (Cons p ps)
  obtain k v where p: "p = (k, v)" by (cases p)
  from Cons.prems p have dist: "distinct (map fst ps)" and notin: "k \<notin> fst ` set ps"
    by auto
  show ?case
  proof (cases "k \<in> F")
    case True
    with Cons.prems p have fresh: "k \<notin> fst ` set d" by auto
    from Cons.prems p notin have "fst ` set ps \<inter> F \<inter> fst ` set (d @ [(k, v)]) = {}"
      by auto
    with dist have "filter (\<lambda>(n, x). n \<in> F \<and> P x) (fold (\<lambda>(k, v). AList.update k v) ps (d @ [(k, v)])) =
        filter (\<lambda>(n, x). n \<in> F \<and> P x) (d @ [(k, v)]) @ filter (\<lambda>(n, x). n \<in> F \<and> P x) ps"
      by (rule Cons.IH)
    with fresh p show ?thesis by (simp add: update_fresh)
  next
    case False
    from Cons.prems p False have "fst ` set ps \<inter> F \<inter> fst ` set (AList.update k v d) = {}"
      by (auto simp: dom_update)
    with dist have "filter (\<lambda>(n, x). n \<in> F \<and> P x) (fold (\<lambda>(k, v). AList.update k v) ps (AList.update k v d)) =
        filter (\<lambda>(n, x). n \<in> F \<and> P x) (AList.update k v d) @ filter (\<lambda>(n, x). n \<in> F \<and> P x) ps"
      by (rule Cons.IH)
    with False p show ?thesis by (simp add: filter_update_other)
  qed
qed

lemma declared_filters_keys: "fst ` set (declared_filters opts) \<subseteq> set filter_names"
  by (auto simp: declared_filters_def filter_names_def split: option.splits)

lemma declared_filters_distinct: "distinct (map fst (declared_filters opts))"
  by (simp add: declared_filters_def split: option.splits)

lemma declared_filters_values:
  "(k, x) \<in> set (declared_filters opts) \<Longrightarrow> x \<noteq> JNull \<and> x \<noteq> JUndefined"
  by (auto simp: declared_filters_def split: option.splits)


lemma constructed_client:
  "VOE_constructor key lg w0 = (Inr v, w1) \<Longrightarrow>
   key = Some (apiKey v) \<and> apiKey v \<noteq> [] \<and> cfg_params (client v) = [(''key'', JStr (apiKey v))] \<and>
   cfg_baseURL (client v) = ''https://voe.sx/api'' \<and> w1 = w0"
  by (auto simp: VOE_constructor_def split: option.splits if_splits)


lemma listFiles_filter_params:
  assumes "cfg_params (client v) = [(''key'', JStr k)]"
    and "distinct (map fst ps)"
  shows "filter_params (merged_config v ''/file/list'' (Some ps)) =
     filter (\<lambda>(n, x). n \<in> set filter_names \<and> x \<noteq> JNull \<and> x \<noteq> JUndefined) ps"
proof -
  have "fst ` set ps \<inter> set filter_names \<inter> fst ` set [(''key'', JStr k)] = {}"
    by (auto simp: filter_names_def)
  with assms(2) have "filter (\<lambda>(n, x). n \<in> set filter_names \<and> x \<noteq> JNull \<and> x \<noteq> JUndefined)
        (fold (\<lambda>(k, v). AList.update k v) ps [(''key'', JStr k)]) =
      filter (\<lambda>(n, x). n \<in> set filter_names \<and> x \<noteq> JNull \<and> x \<noteq> JUndefined) [(''key'', JStr k)] @
      filter (\<lambda>(n, x). n \<in> set filter_names \<and> x \<noteq> JNull \<and> x \<noteq> JUndefined) ps"
    by (rule filter_fold_update)
  moreover have "filter_params r =
      filter (\<lambda>(n, x). n \<in> set filter_names \<and> x \<noteq> JNull \<and> x \<noteq> JUndefined) (req_params r)" for r
    by (auto simp: filter_params_def query_params_def intro!: filter_cong)
  ultimately show ?thesis
    using assms(1) by (simp add: merged_config_def) (simp add: filter_names_def)
qed

lemma listFiles_declared:
  assumes "cfg_params (client v) = [(''key'', JStr k)]"
  shows "query_params (merged_config v ''/file/list'' (Some (declared_filters opts))) =
           (''key'', JStr k) # declared_filters opts"
    and "filter_params (merged_config v ''/file/list'' (Some (declared_filters opts))) =
           declared_filters opts"
proof -
  let ?ps = "declared_filters opts"
  have keys: "fst ` set ?ps \<subseteq> set filter_names" by (rule declared_filters_keys)
  then have "fst ` set ?ps \<inter> fst ` set [(''key'', JStr k)] = {}"
    by (auto simp: filter_names_def)
  with declared_filters_distinct
  have "fold (\<lambda>(k, v). AList.update k v) ?ps [(''key'', JStr k)] = [(''key'', JStr k)] @ ?ps"
    by (rule fold_update_fresh)
  then have params: "req_params (merged_config v ''/file/list'' (Some ?ps)) = (''key'', JStr k) # ?ps"
    using assms by (simp add: merged_config_def)
  have "filter (\<lambda>(k, x). x \<noteq> JNull \<and> x \<noteq> JUndefined) ?ps = ?ps"
    by (rule filter_True) (use declared_filters_values in auto)
  then show q: "query_params (merged_config v ''/file/list'' (Some ?ps)) = (''key'', JStr k) # ?ps"
    by (simp add: query_params_def params)
  have "filter (\<lambda>(k, x). k \<in> set filter_names) ?ps = ?ps"
    by (rule filter_True) (use keys in auto)
  then show "filter_params (merged_config v ''/file/list'' (Some ?ps)) = ?ps"
    by (simp add: filter_params_def q) (simp add: filter_names_def)
qed

lemma declared_filters_lookup:
  "map_of (declared_filters opts) ''page'' = map_option JNum (page opts) \<and>
   map_of (declared_filters opts) ''per_page'' = map_option JNum (per_page opts) \<and>
   map_of (declared_filters opts) ''fld_id'' = map_option JNum (fld_id opts) \<and>
   map_of (declared_filters opts) ''created'' = map_option JStr (created opts) \<and>
   map_of (declared_filters opts) ''name'' = map_option JStr (name opts)"
  by (simp add: declared_filters_def split: option.splits)

lemma net_fail_apply: "net_fail e r = Inl e"
  by (simp add: net_fail_def)

lemma net_ok_apply: "net_ok resp r = Inr resp"
  by (simp add: net_ok_def)

lemma data_resp_of: "data (resp_of s t d) = d" "status (resp_of s t d) = s"
  by (simp_all add: resp_of_def)

lemma apiKey_voe1: "apiKey voe1 = ''k1''"
  by (simp add: voe1_def)

lemma constructor_voe1: "VOE_constructor (Some ''k1'') None w = (Inr voe1, w)"
  by (simp add: VOE_constructor_def voe1_def)

subsection \<open>The two classifiers, one after the other\<close>

text \<open>
  The handler of \<^verbatim>\<open>requestWithErrorHandling\<close>, given a rejection of the transport as it is,
  classifies it as the response interceptor does.
\<close>

lemma handler_alone:
  "fst (requestWithErrorHandling v (\<lambda>w. (Inl e, w)) w) = Inl t \<longleftrightarrow>
   fst (interceptor_rejected v e w) = Inl t"
  by (simp add: requestWithErrorHandling_result interceptor_rejected_result
      split: option.splits sum.splits)

text \<open>
  On a JSON-endpoint call the handler never sees that rejection: it sees what the
  interceptor threw. No failure of such a call carries the code \<^verbatim>\<open>NETWORK_ERROR\<close>.
\<close>

lemma json_never_network_error:
  "failure_code (fst (call v net opn w)) \<noteq> Some ''NETWORK_ERROR''"
proof (cases "net (merged_config v (op_path opn) (op_params opn))")
  case (Inl e)
  then show ?thesis
    by (simp add: call_failure failure_code_def split: option.splits sum.splits)
next
  case (Inr resp)
  then show ?thesis
    by (cases "data resp") (simp_all add: call_success failure_code_def)
qed

section \<open>Construction\<close>

text \<open>
  C2. Constructing the client with an absent or empty API key fails with the typed error
  of classification \<^verbatim>\<open>MISSING_API_KEY\<close>, and the world is left as it was: no request has
  been handed to the transport. With a non-empty key the construction succeeds, again
  without a request, and the client holds that key.
\<close>

theorem constructor_requires_api_key:
  "((key = None \<or> key = Some []) \<longrightarrow>
      VOE_constructor key lg w = (Inl (VOEError ''API key is required'' ''MISSING_API_KEY'' None), w)) \<and>
   (\<forall>k. key = Some k \<and> k \<noteq> [] \<longrightarrow>
      (\<exists>v. VOE_constructor key lg w = (Inr v, w) \<and> apiKey v = k))"
  by (auto simp: VOE_constructor_def)

theorem constructor_requires_api_key_witness:
  "VOE_constructor None None world0 = (Inl (VOEError ''API key is required'' ''MISSING_API_KEY'' None), world0) \<and>
   VOE_constructor (Some []) None world0 = (Inl (VOEError ''API key is required'' ''MISSING_API_KEY'' None), world0) \<and>
   (\<exists>v. VOE_constructor (Some ''k1'') None world0 = (Inr v, world0) \<and> apiKey v = ''k1'')"
  using constructor_requires_api_key [of None None world0]
        constructor_requires_api_key [of "Some []" None world0]
        constructor_requires_api_key [of "Some ''k1''" None world0]
  by simp

section \<open>The API key on every JSON-endpoint request\<close>




section \<open>Failures of a JSON-endpoint call\<close>

text \<open>
  C4, as amended. When the transport rejects a JSON-endpoint call with an upstream response
  attached (the library does so for a status of 400 or more): if reading \<^verbatim>\<open>message\<close> from
  the body gives a non-empty string \<open>x\<close>, the failure is the \<^verbatim>\<open>API_ERROR\<close> with the message
  \<open>x\<close> and that response attached, so with the upstream status; if the read gives
  \<^verbatim>\<open>undefined\<close> (the body is not \<^verbatim>\<open>null\<close> and has no such field), the failure is the
  \<^verbatim>\<open>API_ERROR\<close> with the message \<^verbatim>\<open>API request failed\<close> and that response attached.
\<close>

theorem api_error_message:
  assumes "net (merged_config v (op_path opn) (op_params opn)) = Inl e"
    and "err_response e = Some r"
  shows "(\<forall>x. get_prop (data r) ''message'' = Inr (JStr x) \<and> x \<noteq> [] \<longrightarrow>
            fst (call v net opn w) = Inl (VOEError x ''API_ERROR'' (Some r))) \<and>
         (get_prop (data r) ''message'' = Inr JUndefined \<longrightarrow>
            fst (call v net opn w) = Inl (VOEError ''API request failed'' ''API_ERROR'' (Some r)))"
  using assms by (simp add: call_failure js_or_def)

theorem api_error_message_witness:
  "fst (call voe1 (net_fail (AxiosError (Some (resp_of ''404'' ''Not Found'' (JObj [(''message'', JStr ''No such file'')]))) True ''Request failed with status code 404'')) (DeleteFile ''abc'') world0) =
     Inl (VOEError ''No such file'' ''API_ERROR'' (Some (resp_of ''404'' ''Not Found'' (JObj [(''message'', JStr ''No such file'')])))) \<and>
   fst (call voe1 (net_fail (AxiosError (Some (resp_of ''500'' ''Internal Server Error'' (JObj [(''success'', JBool False)]))) True ''Request failed with status code 500'')) (DeleteFile ''abc'') world0) =
     Inl (VOEError ''API request failed'' ''API_ERROR'' (Some (resp_of ''500'' ''Internal Server Error'' (JObj [(''success'', JBool False)]))))"
  using api_error_message [where v = voe1 and opn = "DeleteFile ''abc''" and w = world0
      and net = "net_fail (AxiosError (Some (resp_of ''404'' ''Not Found'' (JObj [(''message'', JStr ''No such file'')]))) True ''Request failed with status code 404'')"
      and e = "AxiosError (Some (resp_of ''404'' ''Not Found'' (JObj [(''message'', JStr ''No such file'')]))) True ''Request failed with status code 404''"
      and r = "resp_of ''404'' ''Not Found'' (JObj [(''message'', JStr ''No such file'')])"]
    api_error_message [where v = voe1 and opn = "DeleteFile ''abc''" and w = world0
      and net = "net_fail (AxiosError (Some (resp_of ''500'' ''Internal Server Error'' (JObj [(''success'', JBool False)]))) True ''Request failed with status code 500'')"
      and e = "AxiosError (Some (resp_of ''500'' ''Internal Server Error'' (JObj [(''success'', JBool False)]))) True ''Request failed with status code 500''"
      and r = "resp_of ''500'' ''Internal Server Error'' (JObj [(''success'', JBool False)])"]
  by (simp add: net_fail_apply data_resp_of)

text \<open>
  The claim as it was stated fails twice: with the body \<^verbatim>\<open>{"message": ""}\<close> the message of
  the failure is the fallback and not the field's value, and with the body \<^verbatim>\<open>null\<close>, which
  has no \<^verbatim>\<open>message\<close> field, the classification is not \<^verbatim>\<open>API_ERROR\<close>.
\<close>

theorem api_error_message_counterexample:
  "fst (call voe1 (net_fail (AxiosError (Some (resp_of ''400'' ''Bad Request'' (JObj [(''message'', JStr [])]))) True ''Request failed with status code 400'')) GetAccountInfo world0) =
     Inl (VOEError ''API request failed'' ''API_ERROR'' (Some (resp_of ''400'' ''Bad Request'' (JObj [(''message'', JStr [])])))) \<and>
   failure_code (fst (call voe1 (net_fail (AxiosError (Some (resp_of ''500'' ''Internal Server Error'' JNull)) True ''Request failed with status code 500'')) GetAccountInfo world0)) =
     Some ''REQUEST_ERROR''"
  using call_failure [where v = voe1 and opn = GetAccountInfo and w = world0
      and net = "net_fail (AxiosError (Some (resp_of ''400'' ''Bad Request'' (JObj [(''message'', JStr [])]))) True ''Request failed with status code 400'')"
      and e = "AxiosError (Some (resp_of ''400'' ''Bad Request'' (JObj [(''message'', JStr [])]))) True ''Request failed with status code 400''"]
    call_failure [where v = voe1 and opn = GetAccountInfo and w = world0
      and net = "net_fail (AxiosError (Some (resp_of ''500'' ''Internal Server Error'' JNull)) True ''Request failed with status code 500'')"
      and e = "AxiosError (Some (resp_of ''500'' ''Internal Server Error'' JNull)) True ''Request failed with status code 500''"]
  by (simp add: net_fail_apply data_resp_of js_or_def failure_code_def)

text \<open>
  C9. When the body of the upstream error response is an object whose \<^verbatim>\<open>message\<close> field is
  the empty string, the failure of a JSON-endpoint call is the \<^verbatim>\<open>API_ERROR\<close> with the
  fallback message \<^verbatim>\<open>API request failed\<close>: the classifier tests the truthiness of the field.
\<close>

theorem empty_message_falls_back:
  assumes "net (merged_config v (op_path opn) (op_params opn)) = Inl e"
    and "err_response e = Some r"
    and "data r = JObj kvs"
    and "map_of kvs ''message'' = Some (JStr [])"
  shows "fst (call v net opn w) = Inl (VOEError ''API request failed'' ''API_ERROR'' (Some r))"
  using assms by (simp add: call_failure js_or_def)

theorem empty_message_falls_back_witness:
  "fst (call voe1 (net_fail (AxiosError (Some (resp_of ''400'' ''Bad Request'' (JObj [(''message'', JStr [])]))) True ''Request failed with status code 400'')) (RenameFile ''abc'' ''t'') world0) =
     Inl (VOEError ''API request failed'' ''API_ERROR'' (Some (resp_of ''400'' ''Bad Request'' (JObj [(''message'', JStr [])]))))"
  using empty_message_falls_back [where v = voe1 and opn = "RenameFile ''abc'' ''t''" and w = world0
      and net = "net_fail (AxiosError (Some (resp_of ''400'' ''Bad Request'' (JObj [(''message'', JStr [])]))) True ''Request failed with status code 400'')"
      and e = "AxiosError (Some (resp_of ''400'' ''Bad Request'' (JObj [(''message'', JStr [])]))) True ''Request failed with status code 400''"
      and r = "resp_of ''400'' ''Bad Request'' (JObj [(''message'', JStr [])])"
      and kvs = "[(''message'', JStr [])]"]
  by (simp add: net_fail_apply data_resp_of)




text \<open>
  C5, evaluated. A request that was sent and got no response: the response interceptor
  classifies the rejection as \<^verbatim>\<open>NETWORK_ERROR\<close>, and \<^verbatim>\<open>requestWithErrorHandling\<close> then
  classifies what the interceptor threw, which has neither a response nor a request, so
  the caller of \<^verbatim>\<open>getAccountInfo\<close> receives the code \<^verbatim>\<open>REQUEST_ERROR\<close>.
\<close>

theorem network_failure_reaches_caller_as_request_error:
  "fst (interceptor_rejected voe1 (AxiosError None True ''timeout of 1000ms exceeded'') world0) =
     Inl (VOEError ''Network error'' ''NETWORK_ERROR'' None) \<and>
   fst (getAccountInfo voe1 (net_fail (AxiosError None True ''timeout of 1000ms exceeded'')) world0) =
     Inl (VOEError ''Network error'' ''REQUEST_ERROR'' None)"
  using call_failure [where v = voe1 and opn = GetAccountInfo and w = world0
      and net = "net_fail (AxiosError None True ''timeout of 1000ms exceeded'')"
      and e = "AxiosError None True ''timeout of 1000ms exceeded''"]
  by (simp add: net_fail_apply interceptor_rejected_result)

section \<open>The upload server and the upload\<close>

text \<open>
  C6. When the upstream answers \<^verbatim>\<open>getUploadServer\<close> with success and the body is an object
  whose \<^verbatim>\<open>result\<close> field is \<open>s\<close>, the operation returns \<open>s\<close>.
\<close>

theorem getUploadServer_unwraps_result:
  assumes "net (merged_config v ''/upload/server'' None) = Inr resp"
    and "data resp = JObj kvs"
    and "map_of kvs ''result'' = Some s"
  shows "fst (getUploadServer v net w) = Inr s"
  using assms call_success [of net v GetUploadServer resp w] by simp

theorem getUploadServer_unwraps_result_witness:
  "fst (getUploadServer voe1 (net_ok (resp_of ''200'' ''OK'' (JObj [(''result'', JStr ''https://up.example/x'')]))) world0) =
     Inr (JStr ''https://up.example/x'')"
  using getUploadServer_unwraps_result [where v = voe1 and w = world0
      and net = "net_ok (resp_of ''200'' ''OK'' (JObj [(''result'', JStr ''https://up.example/x'')]))"
      and resp = "resp_of ''200'' ''OK'' (JObj [(''result'', JStr ''https://up.example/x'')])"
      and kvs = "[(''result'', JStr ''https://up.example/x'')]"
      and s = "JStr ''https://up.example/x''"]
  by (simp add: net_ok_apply data_resp_of)

text \<open>
  C7. \<^verbatim>\<open>uploadFile(s, b)\<close> hands exactly one request to the transport: a POST to \<open>s\<close> itself,
  with no base URL and no query parameter (so without the API key of the shared client),
  with the content type \<^verbatim>\<open>multipart/form-data\<close> and a form whose \<^verbatim>\<open>file\<close> field is \<open>b\<close>. When
  the transport answers with a response, the operation returns the body of that response
  as it is, and nothing is logged.
\<close>

theorem uploadFile_posts_to_server:
  "requests (snd (uploadFile v net uploadServer file w)) =
     requests w @
       [\<lparr>req_method = ''post'', req_baseURL = None, req_url = uploadServer, req_params = [],
         req_headers = [(''Content-Type'', ''multipart/form-data'')],
         req_data = Some (FormData [(''file'', file)])\<rparr>] \<and>
   (\<forall>resp. net \<lparr>req_method = ''post'', req_baseURL = None, req_url = uploadServer, req_params = [],
         req_headers = [(''Content-Type'', ''multipart/form-data'')],
         req_data = Some (FormData [(''file'', file)])\<rparr> = Inr resp \<longrightarrow>
      fst (uploadFile v net uploadServer file w) = Inr (data resp) \<and>
      logged (snd (uploadFile v net uploadServer file w)) = logged w)"
  by (simp add: uploadFile_def Let_def split: sum.splits)

theorem uploadFile_posts_to_server_witness:
  "requests (snd (uploadFile voe1 (net_ok (resp_of ''200'' ''OK'' (JObj [(''file_code'', JStr ''abc'')]))) ''https://up.example/x'' [1, 2, 3] world0)) =
     [\<lparr>req_method = ''post'', req_baseURL = None, req_url = ''https://up.example/x'', req_params = [],
       req_headers = [(''Content-Type'', ''multipart/form-data'')],
       req_data = Some (FormData [(''file'', [1, 2, 3])])\<rparr>] \<and>
   fst (uploadFile voe1 (net_ok (resp_of ''200'' ''OK'' (JObj [(''file_code'', JStr ''abc'')]))) ''https://up.example/x'' [1, 2, 3] world0) =
     Inr (JObj [(''file_code'', JStr ''abc'')])"
  using uploadFile_posts_to_server [of voe1 "net_ok (resp_of ''200'' ''OK'' (JObj [(''file_code'', JStr ''abc'')]))" "''https://up.example/x''" "[1, 2, 3]" world0]
  by (simp add: net_ok_apply data_resp_of world0_def)

text \<open>
  C1, evaluated. The upload server answers with status 500: \<^verbatim>\<open>uploadFile\<close> rethrows the
  rejection of the transport as it is, which is no \<^verbatim>\<open>VOEError\<close> and has no classification
  code, where a JSON-endpoint call at the same rejection fails with the \<^verbatim>\<open>API_ERROR\<close>.
\<close>

theorem uploadFile_rethrows_unclassified:
  "fst (uploadFile voe1 (net_fail (AxiosError (Some (resp_of ''500'' ''Internal Server Error'' (JObj [(''message'', JStr ''disk full'')]))) True ''Request failed with status code 500'')) ''https://up.example/x'' [1, 2, 3] world0) =
     Inl (AxiosError (Some (resp_of ''500'' ''Internal Server Error'' (JObj [(''message'', JStr ''disk full'')]))) True ''Request failed with status code 500'') \<and>
   fst (getAccountInfo voe1 (net_fail (AxiosError (Some (resp_of ''500'' ''Internal Server Error'' (JObj [(''message'', JStr ''disk full'')]))) True ''Request failed with status code 500'')) world0) =
     Inl (VOEError ''disk full'' ''API_ERROR'' (Some (resp_of ''500'' ''Internal Server Error'' (JObj [(''message'', JStr ''disk full'')]))))"
  using call_failure [where v = voe1 and opn = GetAccountInfo and w = world0
      and net = "net_fail (AxiosError (Some (resp_of ''500'' ''Internal Server Error'' (JObj [(''message'', JStr ''disk full'')]))) True ''Request failed with status code 500'')"
      and e = "AxiosError (Some (resp_of ''500'' ''Internal Server Error'' (JObj [(''message'', JStr ''disk full'')]))) True ''Request failed with status code 500''"]
  by (simp add: uploadFile_def Let_def net_fail_apply data_resp_of js_or_def)

section \<open>The query of listFiles\<close>

text \<open>
  C8. For a client that the constructor returned, \<^verbatim>\<open>listFiles\<close> hands one request to the
  transport. Whatever object it is given, the filter parameters in the query of that
  request are the filters of the object that have a value, and no other. When the object
  is one of the declared type (the filters that are present and nothing else), the query
  is the API key followed by those filters: each of \<^verbatim>\<open>page\<close>, \<^verbatim>\<open>per_page\<close>, \<^verbatim>\<open>fld_id\<close>,
  \<^verbatim>\<open>created\<close> and \<^verbatim>\<open>name\<close> is in the query with its value when it was given and is not in the
  query when it was absent. With no filter the query has no filter parameter; with
  \<^verbatim>\<open>{page: 2, per_page: 5}\<close> it has those two.
\<close>

theorem listFiles_query:
  assumes "VOE_constructor key lg w0 = (Inr v, w1)"
    and "listFiles v net options w = (res, w')"
    and "ps = (case options of None \<Rightarrow> [] | Some obj \<Rightarrow> obj)"
  shows "\<exists>r. requests w' = requests w @ [r] \<and>
           (distinct (map fst ps) \<longrightarrow>
              filter_params r =
                filter (\<lambda>(n, x). n \<in> set filter_names \<and> x \<noteq> JNull \<and> x \<noteq> JUndefined) ps) \<and>
           (\<forall>opts. ps = declared_filters opts \<longrightarrow>
              query_params r = (''key'', JStr (apiKey v)) # declared_filters opts \<and>
              filter_params r = declared_filters opts \<and>
              map_of (filter_params r) ''page'' = map_option JNum (page opts) \<and>
              map_of (filter_params r) ''per_page'' = map_option JNum (per_page opts) \<and>
              map_of (filter_params r) ''fld_id'' = map_option JNum (fld_id opts) \<and>
              map_of (filter_params r) ''created'' = map_option JStr (created opts) \<and>
              map_of (filter_params r) ''name'' = map_option JStr (name opts))"
proof -
  let ?r = "merged_config v ''/file/list'' (Some ps)"
  from assms(1) have c: "cfg_params (client v) = [(''key'', JStr (apiKey v))]"
    by (simp add: constructed_client)
  have "requests (snd (listFiles v net options w)) = requests w @ [?r]"
    using call_requests [of v net "ListFiles options" w] assms(3) by simp
  with assms(2) have 1: "requests w' = requests w @ [?r]" by simp
  have 2: "distinct (map fst ps) \<longrightarrow>
      filter_params ?r = filter (\<lambda>(n, x). n \<in> set filter_names \<and> x \<noteq> JNull \<and> x \<noteq> JUndefined) ps"
    using listFiles_filter_params [OF c] by blast
  have 3: "query_params ?r = (''key'', JStr (apiKey v)) # declared_filters opts \<and>
      filter_params ?r = declared_filters opts \<and>
      map_of (filter_params ?r) ''page'' = map_option JNum (page opts) \<and>
      map_of (filter_params ?r) ''per_page'' = map_option JNum (per_page opts) \<and>
      map_of (filter_params ?r) ''fld_id'' = map_option JNum (fld_id opts) \<and>
      map_of (filter_params ?r) ''created'' = map_option JStr (created opts) \<and>
      map_of (filter_params ?r) ''name'' = map_option JStr (name opts)"
    if "ps = declared_filters opts" for opts
    using that listFiles_declared [OF c, of opts] declared_filters_lookup [of opts] by simp
  show ?thesis
    using 1 2 3 by (intro exI [of _ ?r]) blast
qed

theorem listFiles_query_witness:
  "(\<exists>r. requests (snd (listFiles voe1 (net_ok (resp_of ''200'' ''OK'' (JObj []))) (Some []) world0)) = requests world0 @ [r] \<and>
        query_params r = [(''key'', JStr ''k1'')] \<and> filter_params r = []) \<and>
   (\<exists>r. requests (snd (listFiles voe1 (net_ok (resp_of ''200'' ''OK'' (JObj []))) (Some [(''page'', JNum ''2''), (''per_page'', JNum ''5'')]) world0)) = requests world0 @ [r] \<and>
        query_params r = [(''key'', JStr ''k1''), (''page'', JNum ''2''), (''per_page'', JNum ''5'')] \<and>
        filter_params r = [(''page'', JNum ''2''), (''per_page'', JNum ''5'')])"
proof -
  have a: "[] = declared_filters \<lparr>page = None, per_page = None, fld_id = None, created = None, name = None\<rparr>"
    by (simp add: declared_filters_def)
  have b: "[(''page'', JNum ''2''), (''per_page'', JNum ''5'')] =
      declared_filters \<lparr>page = Some ''2'', per_page = Some ''5'', fld_id = None, created = None, name = None\<rparr>"
    by (simp add: declared_filters_def)
  show ?thesis
    using listFiles_query [OF constructor_voe1 [of world0] surjective_pairing,
        where options = "Some []" and ps = "[]" and w = world0
          and net = "net_ok (resp_of ''200'' ''OK'' (JObj []))"] a
      listFiles_query [OF constructor_voe1 [of world0] surjective_pairing,
        where options = "Some [(''page'', JNum ''2''), (''per_page'', JNum ''5'')]"
          and ps = "[(''page'', JNum ''2''), (''per_page'', JNum ''5'')]" and w = world0
          and net = "net_ok (resp_of ''200'' ''OK'' (JObj []))"] b
    by (auto simp: apiKey_voe1)
qed

end
